theory Spec2Isabelle
  imports Main "HOL-Library.Word"
begin

section \<open>Errors\<close>

text \<open>
  A Go \<open>error\<close> is an interface value: \<open>nil\<close> or an error. The package creates its own
  errors with \<open>errors.New\<close>; every other error comes from the AMQP client library.
  \<open>None\<close> stands for \<open>nil\<close>.
\<close>

datatype error = ErrorsNew string | AmqpError string

type_synonym go_error = "error option"

definition ErrAlreadyAcked :: error where
  "ErrAlreadyAcked = ErrorsNew ''already acked''"

section \<open>AMQP values\<close>

text \<open>
  The wire protocol is delegated to the AMQP client library \<open>github.com/streadway/amqp\<close>;
  only the parts of its types that this package reads or writes are modelled. A Go
  string is a byte sequence, as \<open>string\<close> is here; \<open>[]byte(s)\<close> has the same bytes.
\<close>

type_synonym byte = "8 word"

definition bytes_of_string :: "string \<Rightarrow> byte list" where
  "bytes_of_string s = map (\<lambda>c. of_nat (of_char c)) s"

text \<open>\<open>amqp.Table\<close> is \<open>map[string]interface{}\<close>; these are the values a field may hold.\<close>

datatype field_value = FString string | FInt int | FBool bool | FBytes "byte list" | FNil

type_synonym Table = "string \<rightharpoonup> field_value"

text \<open>
  The delivery modes are constants of the client library (\<open>amqp.Transient\<close> and
  \<open>amqp.Persistent\<close>, of type \<open>uint8\<close>), with the values the AMQP 0-9-1 protocol gives them.
\<close>

definition amqp_Transient :: "8 word" where "amqp_Transient = 1"
definition amqp_Persistent :: "8 word" where "amqp_Persistent = 2"

text \<open>\<open>amqp.Publishing\<close>: the fields the package sets; it leaves every other field zero.\<close>

record Publishing =
  pub_Headers :: Table
  pub_ContentType :: string
  pub_Body :: "byte list"
  pub_DeliveryMode :: "8 word"
  pub_Priority :: "8 word"

text \<open>
  Connections, channels, Go channels and the library's acknowledgers are handles
  (natural numbers); a pointer or interface that may be \<open>nil\<close> is an \<open>option\<close>.
\<close>

type_synonym handle = nat

text \<open>\<open>amqp.Delivery\<close>: the fields the consume loop reads.\<close>

record Delivery =
  d_Acknowledger :: "handle option"
  d_DeliveryTag :: "64 word"
  d_Headers :: Table
  d_Body :: "byte list"

section \<open>Message and Acknowledger\<close>

text \<open>
  \<open>acknowledger\<close> wraps the library's acknowledger and a delivery tag. The interface
  \<open>Acknowledger\<close> has two implementations: a pointer to such a wrapper (the wrapper is
  never mutated, so its contents stand for it) and a pointer to a NullAcknowledger.
\<close>

record acknowledger =
  ack_Acknowledger :: "handle option"
  deliveryTag :: "64 word"

datatype Acknowledger = Wrapper acknowledger | NullPointer nat

record Message =
  msg_Acknowledger :: Acknowledger
  msg_Headers :: Table
  msg_Body :: "byte list"

section \<open>Options, Exchange and Queue\<close>

text \<open>
  A disconnect callback is a \<open>func()\<close>: the package's own \<open>DefaultOnDisconnect\<close>, which
  panics, or a function of the caller, known by a number.
\<close>

datatype callback = DefaultOnDisconnect | UserFunc nat

record ExchangeOptions =
  opt_Name :: string
  opt_Type :: string
  opt_Durable :: bool
  opt_AutoDelete :: bool
  OnDisconnect :: "callback option"

record QueueOptions =
  Durable :: bool
  AutoDelete :: bool
  RoutingKey :: string
  PrefetchCount :: int
  PrefetchSize :: int

record Exchange =
  Name :: string
  connection :: "handle option"
  channel :: "handle option"
  onDisconnect :: "callback option"

text \<open>
  A Queue holds a pointer to its Exchange and dereferences it without a check; no
  field of an Exchange is assigned after construction, so the Queue holds the Exchange's
  contents.
\<close>

record Queue =
  exchange :: Exchange
  routingKey :: string
  name :: string

text \<open>
  The package-level variables. Nothing in the package assigns \<open>DefaultURL\<close>,
  \<open>DefaultOnDisconnect\<close> or the struct behind \<open>DefaultQueueOptions\<close>, which \<open>NewQueue\<close> only
  reads: they are constants with their initial values.
\<close>

definition DefaultURL :: string where
  "DefaultURL = ''amqp://localhost''"

definition DefaultQueueOptions :: QueueOptions where
  "DefaultQueueOptions =
     \<lparr>Durable = True, AutoDelete = False, RoutingKey = [],
      PrefetchCount = 0, PrefetchSize = 0\<rparr>"

text \<open>
  \<open>NewExchange\<close> writes through its options pointer, so ExchangeOptions structs live in a
  store, at addresses. \<open>DefaultExchangeOptions\<close> is the address of the package's default
  struct, whose contents at program start are \<open>DefaultExchangeOptions_init\<close>.
\<close>

type_synonym addr = nat

definition DefaultExchangeOptions :: addr where
  "DefaultExchangeOptions = 0"

definition DefaultExchangeOptions_init :: ExchangeOptions where
  "DefaultExchangeOptions_init =
     \<lparr>opt_Name = ''hutch'', opt_Type = ''topic'', opt_Durable = True,
      opt_AutoDelete = False, OnDisconnect = Some DefaultOnDisconnect\<rparr>"

section \<open>The client library as an environment\<close>

text \<open>
  Every call into the client library is recorded, with its receiver and arguments, in
  the order the package makes it. The two operations of \<open>Queue.Close\<close> on the
  close-notification channel are recorded in the same log.
\<close>

datatype call =
    Dial string
  | Connection_Channel handle
  | ExchangeDeclare "handle option" string string bool bool bool bool "Table option"
  | Channel_Publish "handle option" string string bool bool Publishing
  | Channel_Close "handle option"
  | Connection_Close "handle option"
  | QueueDeclare "handle option" string bool bool bool bool "Table option"
  | Qos "handle option" int int bool
  | QueuePurge "handle option" string bool
  | QueueBind "handle option" string string string bool "Table option"
  | Consume "handle option" string string bool bool bool bool "Table option"
  | Cancel "handle option" string bool
  | NotifyClose "handle option"
  | Receive_NotifyClose
  | Acknowledger_Ack "handle option" "64 word" bool
  | Acknowledger_Nack "handle option" "64 word" bool bool

text \<open>A receive on a Go channel yields a value or never returns.\<close>

datatype 'a blocking = NeverReturns | Returned 'a

text \<open>
  What the library and the broker answer is a parameter: each answer is a function of
  the log up to and including the call being answered, so it may depend on the call's
  arguments and on everything that happened before. A library call is taken to return,
  with the results its Go signature gives it.
\<close>

record amqp =
  returns_error :: "call list \<Rightarrow> go_error"
  returns_connection :: "call list \<Rightarrow> error + handle"
  returns_channel :: "call list \<Rightarrow> error + handle"
  returns_deliveries :: "call list \<Rightarrow> error + handle"
  receives_close :: "call list \<Rightarrow> go_error blocking"

record world =
  calls :: "call list"
  options_at :: "addr \<Rightarrow> ExchangeOptions"

definition record_call :: "call \<Rightarrow> world \<Rightarrow> world" where
  "record_call c w = w\<lparr>calls := calls w @ [c]\<rparr>"

text \<open>A library call of which the package uses only the \<open>error\<close> result.\<close>

definition lib_call :: "amqp \<Rightarrow> call \<Rightarrow> world \<Rightarrow> go_error \<times> world" where
  "lib_call env c w = (let w' = record_call c w in (returns_error env (calls w'), w'))"

section \<open>Exchange\<close>

text \<open>
  \<open>NewExchange(url, options)\<close>. The options pointer is \<open>None\<close> for \<open>nil\<close>. On failure Go
  returns \<open>(nil, err)\<close>, here \<open>Inl err\<close>.
\<close>

definition NewExchange ::
  "amqp \<Rightarrow> string \<Rightarrow> addr option \<Rightarrow> world \<Rightarrow> (error + Exchange) \<times> world" where
  "NewExchange env url0 options0 w0 =
     (let url = (if url0 = [] then DefaultURL else url0);
          options = (case options0 of None \<Rightarrow> DefaultExchangeOptions | Some p \<Rightarrow> p);
          w1 = record_call (Dial url) w0
      in case returns_connection env (calls w1) of
           Inl err \<Rightarrow> (Inl err, w1)
         | Inr c \<Rightarrow>
             (let w2 = record_call (Connection_Channel c) w1
              in case returns_channel env (calls w2) of
                   Inl err \<Rightarrow> (Inl err, w2)
                 | Inr ch \<Rightarrow>
                     (let w3 = (if OnDisconnect (options_at w2 options) = None
                                then w2\<lparr>options_at := (options_at w2)
                                       (options := (options_at w2 options)
                                          \<lparr>OnDisconnect := Some DefaultOnDisconnect\<rparr>)\<rparr>
                                else w2);
                          opts = options_at w3 options
                      in case lib_call env
                                (ExchangeDeclare (Some ch) (opt_Name opts) (opt_Type opts)
                                   (opt_Durable opts) (opt_AutoDelete opts) False False None) w3 of
                           (Some err, w4) \<Rightarrow> (Inl err, w4)
                         | (None, w4) \<Rightarrow>
                             (Inr \<lparr>Name = opt_Name opts, connection = Some c,
                                   channel = Some ch, onDisconnect = OnDisconnect opts\<rparr>, w4))))"

definition Exchange_publish ::
  "amqp \<Rightarrow> Exchange \<Rightarrow> string \<Rightarrow> string \<Rightarrow> string \<Rightarrow> 8 word \<Rightarrow> world \<Rightarrow> go_error \<times> world" where
  "Exchange_publish env e key message requestID deliveryMode w =
     (if channel e = None then (Some (ErrorsNew ''channel is nil''), w)
      else
        (let msg = \<lparr>pub_Headers = [''request_id'' \<mapsto> FString requestID],
                    pub_ContentType = ''application/json'',
                    pub_Body = bytes_of_string message,
                    pub_DeliveryMode = deliveryMode,
                    pub_Priority = 0\<rparr>
         in lib_call env (Channel_Publish (channel e) (Name e) key False False msg) w))"

definition Publish ::
  "amqp \<Rightarrow> Exchange \<Rightarrow> string \<Rightarrow> string \<Rightarrow> string \<Rightarrow> world \<Rightarrow> go_error \<times> world" where
  "Publish env e key message requestID w =
     Exchange_publish env e key message requestID amqp_Persistent w"

definition PublishTransient ::
  "amqp \<Rightarrow> Exchange \<Rightarrow> string \<Rightarrow> string \<Rightarrow> string \<Rightarrow> world \<Rightarrow> go_error \<times> world" where
  "PublishTransient env e key message requestID w =
     Exchange_publish env e key message requestID amqp_Transient w"

definition Exchange_Close :: "amqp \<Rightarrow> Exchange \<Rightarrow> world \<Rightarrow> go_error \<times> world" where
  "Exchange_Close env e w =
     (case lib_call env (Channel_Close (channel e)) w of
        (Some err, w1) \<Rightarrow> (Some err, w1)
      | (None, w1) \<Rightarrow> lib_call env (Connection_Close (connection e)) w1)"

section \<open>Queue\<close>

definition NewQueue ::
  "amqp \<Rightarrow> string \<Rightarrow> Exchange \<Rightarrow> QueueOptions option \<Rightarrow> world \<Rightarrow> (error + Queue) \<times> world" where
  "NewQueue env queueName exch options0 w =
     (let options = (case options0 of None \<Rightarrow> DefaultQueueOptions | Some opts \<Rightarrow> opts)
      in case lib_call env
                (QueueDeclare (channel exch) queueName (Durable options) (AutoDelete options)
                   False False None) w of
           (Some err, w1) \<Rightarrow> (Inl err, w1)
         | (None, w1) \<Rightarrow>
             (let q = \<lparr>exchange = exch, routingKey = RoutingKey options, name = queueName\<rparr>
              in if PrefetchCount options > 0 \<or> PrefetchSize options > 0
                 then (case lib_call env
                              (Qos (channel exch) (PrefetchCount options) (PrefetchSize options)
                                 False) w1 of
                         (Some err, w2) \<Rightarrow> (Inl err, w2)
                       | (None, w2) \<Rightarrow> (Inr q, w2))
                 else (Inr q, w1)))"

definition Purge :: "amqp \<Rightarrow> Queue \<Rightarrow> world \<Rightarrow> go_error \<times> world" where
  "Purge env q w = lib_call env (QueuePurge (channel (exchange q)) (name q) False) w"

definition Queue_Name :: "Queue \<Rightarrow> string" where
  "Queue_Name q = name q"

definition consumerName :: "Queue \<Rightarrow> string" where
  "consumerName q = name q"

definition bind :: "amqp \<Rightarrow> Queue \<Rightarrow> world \<Rightarrow> go_error \<times> world" where
  "bind env q w =
     lib_call env
       (QueueBind (channel (exchange q)) (name q) (routingKey q) (Name (exchange q)) False None) w"

text \<open>
  \<open>Subscribe\<close> ends by starting a goroutine and returns \<open>nil\<close> without waiting for it. The
  goroutine is returned as a value: the variables its body captures, namely the queue,
  the delivery channel \<open>dd\<close> and the output channel \<open>messages\<close>.
\<close>

record goroutine =
  g_queue :: Queue
  g_dd :: handle
  g_messages :: "handle option"

definition Subscribe ::
  "amqp \<Rightarrow> Queue \<Rightarrow> handle option \<Rightarrow> world \<Rightarrow> go_error \<times> goroutine option \<times> world" where
  "Subscribe env q messages w =
     (case bind env q w of
        (Some err, w1) \<Rightarrow> (Some err, None, w1)
      | (None, w1) \<Rightarrow>
          (let w2 = record_call
                      (Consume (channel (exchange q)) (name q) (consumerName q)
                         False False False False None) w1
           in case returns_deliveries env (calls w2) of
                Inl err \<Rightarrow> (Some err, None, w2)
              | Inr dd \<Rightarrow> (None, Some \<lparr>g_queue = q, g_dd = dd, g_messages = messages\<rparr>, w2)))"

text \<open>
  \<open>Queue.Close\<close>. The result of \<open>q.exchange.Close()\<close> is not used. The receive on the
  notification channel may never return; then neither does \<open>Close\<close>.
\<close>

definition Queue_Close :: "amqp \<Rightarrow> Queue \<Rightarrow> world \<Rightarrow> go_error blocking \<times> world" where
  "Queue_Close env q w =
     (case lib_call env (Cancel (channel (exchange q)) (consumerName q) False) w of
        (Some err, w1) \<Rightarrow> (Returned (Some err), w1)
      | (None, w1) \<Rightarrow>
          (let w2 = record_call (NotifyClose (channel (exchange q))) w1;
               w3 = snd (Exchange_Close env (exchange q) w2);
               w4 = record_call Receive_NotifyClose w3
           in case receives_close env (calls w4) of
                NeverReturns \<Rightarrow> (NeverReturns, w4)
              | Returned (Some err) \<Rightarrow> (Returned (Some err), w4)
              | Returned None \<Rightarrow> (Returned None, w4)))"

section \<open>The acknowledger wrapper\<close>

definition acknowledger_Ack :: "amqp \<Rightarrow> acknowledger \<Rightarrow> world \<Rightarrow> go_error \<times> world" where
  "acknowledger_Ack env d w =
     lib_call env (Acknowledger_Ack (ack_Acknowledger d) (deliveryTag d) False) w"

definition acknowledger_Nack ::
  "amqp \<Rightarrow> acknowledger \<Rightarrow> bool \<Rightarrow> world \<Rightarrow> go_error \<times> world" where
  "acknowledger_Nack env d requeue w =
     lib_call env (Acknowledger_Nack (ack_Acknowledger d) (deliveryTag d) False requeue) w"

section \<open>The consume loop\<close>

text \<open>
  The goroutine's steps are the operations its body performs, in order: a receive on
  \<open>dd\<close> (with the delivery, or \<open>None\<close> when the receive reports not-ok), a send on the
  output channel, and the call of the Exchange's \<open>onDisconnect\<close> field. Closing a
  channel is an operation a goroutine can perform, so it is a step as well.
\<close>

datatype step =
    Receive "Delivery option"
  | Send "handle option" Message
  | Call_onDisconnect "callback option"
  | Close_chan "handle option"

datatype send_outcome = SendCompletes | SendBlocks | SendPanics

datatype call_outcome = Returns | Panics string

datatype goroutine_end = Finished | Panicked string | BlockedOnReceive | BlockedOnSend

text \<open>
  What happens to a send (a reader takes the message, nobody ever does, or the channel
  has been closed) and what a function of the caller does when called are parameters,
  functions of the steps so far.
\<close>

record runtime =
  send_outcome :: "step list \<Rightarrow> send_outcome"
  func_outcome :: "nat \<Rightarrow> step list \<Rightarrow> call_outcome"

fun call_func :: "runtime \<Rightarrow> callback option \<Rightarrow> step list \<Rightarrow> call_outcome" where
  "call_func rt None tr = Panics ''invalid memory address or nil pointer dereference''"
| "call_func rt (Some DefaultOnDisconnect) tr = Panics ''Lost connection''"
| "call_func rt (Some (UserFunc k)) tr = func_outcome rt k tr"

text \<open>
  The body of the goroutine, \<open>for open { select { case d, ok := <-dd: ... } }\<close>, run on
  the deliveries \<open>ds\<close> that the delivery channel still carries and on whether the channel
  is closed behind them; \<open>tr\<close> holds the steps so far. One equation is one iteration.
  With no delivery left the receive reports not-ok if the channel is closed, and
  never returns otherwise. After not-ok the callback is called and \<open>open\<close> is false,
  which ends the loop; a received delivery is wrapped and sent, and the loop goes on
  when the send completes.
\<close>

fun consume_loop ::
  "runtime \<Rightarrow> goroutine \<Rightarrow> Delivery list \<Rightarrow> bool \<Rightarrow> step list \<Rightarrow> goroutine_end \<times> step list" where
  "consume_loop rt g [] closed tr =
     (if closed
      then (let tr1 = tr @ [Receive None];
                f = onDisconnect (exchange (g_queue g));
                tr2 = tr1 @ [Call_onDisconnect f]
            in case call_func rt f tr2 of
                 Panics msg \<Rightarrow> (Panicked msg, tr2)
               | Returns \<Rightarrow> (Finished, tr2))
      else (BlockedOnReceive, tr))"
| "consume_loop rt g (d # ds) closed tr =
     (let tr1 = tr @ [Receive (Some d)];
          m = \<lparr>msg_Acknowledger =
                 Wrapper \<lparr>ack_Acknowledger = d_Acknowledger d, deliveryTag = d_DeliveryTag d\<rparr>,
               msg_Headers = d_Headers d,
               msg_Body = d_Body d\<rparr>;
          tr2 = tr1 @ [Send (g_messages g) m]
      in case send_outcome rt tr2 of
           SendCompletes \<Rightarrow> consume_loop rt g ds closed tr2
         | SendBlocks \<Rightarrow> (BlockedOnSend, tr2)
         | SendPanics \<Rightarrow> (Panicked ''send on closed channel'', tr2))"

text \<open>
  Reading a list of steps: the deliveries received, in order, and the messages sent
  with the channel each was sent on, in order.
\<close>

fun received :: "step list \<Rightarrow> Delivery list" where
  "received [] = []"
| "received (Receive (Some d) # tr) = d # received tr"
| "received (s # tr) = received tr"

fun sent :: "step list \<Rightarrow> (handle option \<times> Message) list" where
  "sent [] = []"
| "sent (Send c m # tr) = (c, m) # sent tr"
| "sent (s # tr) = sent tr"

text \<open>The steps of the iterations that receive the deliveries \<open>ds\<close> and send each on.\<close>

fun forward_steps :: "goroutine \<Rightarrow> Delivery list \<Rightarrow> step list" where
  "forward_steps g [] = []"
| "forward_steps g (d # ds) =
     Receive (Some d)
     # Send (g_messages g)
         \<lparr>msg_Acknowledger =
            Wrapper \<lparr>ack_Acknowledger = d_Acknowledger d, deliveryTag = d_DeliveryTag d\<rparr>,
          msg_Headers = d_Headers d,
          msg_Body = d_Body d\<rparr>
     # forward_steps g ds"

section \<open>Acknowledgement and NullAcknowledger\<close>

text \<open>
  \<open>type Acknowledgement int\<close>, with the four constants numbered by \<open>iota\<close>.
\<close>

type_synonym Acknowledgement = int

definition Unacknowledged :: Acknowledgement where "Unacknowledged = 0"
definition Acked :: Acknowledgement where "Acked = 1"
definition Requeued :: Acknowledgement where "Requeued = 2"
definition Dropped :: Acknowledgement where "Dropped = 3"

definition Acknowledgement_String :: "Acknowledgement \<Rightarrow> string" where
  "Acknowledgement_String a =
     (if a = Acked then ''acked''
      else if a = Requeued then ''requeued''
      else if a = Dropped then ''dropped''
      else ''unacknowledged'')"

record NullAcknowledger =
  acked :: bool
  Acknowledgement :: Acknowledgement

text \<open>The zero value of the struct, as \<open>&NullAcknowledger{}\<close> or \<open>new\<close> builds it.\<close>

definition NullAcknowledger_zero :: NullAcknowledger where
  "NullAcknowledger_zero = \<lparr>acked = False, Acknowledgement = 0\<rparr>"

text \<open>
  The methods have a pointer receiver and mutate it: the model returns the error
  together with the receiver's new contents.
\<close>

definition NullAcknowledger_Ack :: "NullAcknowledger \<Rightarrow> go_error \<times> NullAcknowledger" where
  "NullAcknowledger_Ack a =
     (if acked a then (Some ErrAlreadyAcked, a)
      else (None, a\<lparr>acked := True, Acknowledgement := Acked\<rparr>))"

definition NullAcknowledger_Nack :: "NullAcknowledger \<Rightarrow> bool \<Rightarrow> go_error \<times> NullAcknowledger" where
  "NullAcknowledger_Nack a requeue =
     (if acked a then (Some ErrAlreadyAcked, a)
      else (None, (if requeue
                   then a\<lparr>acked := True, Acknowledgement := Requeued\<rparr>
                   else a\<lparr>acked := True, Acknowledgement := Dropped\<rparr>)))"

text \<open>
  A caller of the \<open>Acknowledger\<close> interface makes one of two calls; a history of calls on
  one NullAcknowledger is a list of them, run in order, collecting the errors returned.
\<close>

datatype ack_call = CallAck | CallNack bool

fun null_call :: "ack_call \<Rightarrow> NullAcknowledger \<Rightarrow> go_error \<times> NullAcknowledger" where
  "null_call CallAck a = NullAcknowledger_Ack a"
| "null_call (CallNack requeue) a = NullAcknowledger_Nack a requeue"

fun null_calls :: "ack_call list \<Rightarrow> NullAcknowledger \<Rightarrow> go_error list \<times> NullAcknowledger" where
  "null_calls [] a = ([], a)"
| "null_calls (c # cs) a =
     (case null_call c a of (r, a') \<Rightarrow>
        (case null_calls cs a' of (rs, a'') \<Rightarrow> (r # rs, a'')))"

section \<open>Example inputs\<close>

text \<open>
  A broker that answers every call with success, one whose channel close fails, and one
  whose connection close fails; the exchange and queue of the package's test helper.
\<close>

definition broker_ok :: amqp where
  "broker_ok =
     \<lparr>returns_error = (\<lambda>cs. None),
      returns_connection = (\<lambda>cs. Inr 1),
      returns_channel = (\<lambda>cs. Inr 2),
      returns_deliveries = (\<lambda>cs. Inr 3),
      receives_close = (\<lambda>cs. Returned None)\<rparr>"

definition broker_channel_close_fails :: amqp where
  "broker_channel_close_fails =
     broker_ok\<lparr>returns_error :=
       (\<lambda>cs. case last cs of
                Channel_Close h \<Rightarrow> Some (AmqpError ''channel close failed'')
              | _ \<Rightarrow> None)\<rparr>"

definition broker_connection_close_fails :: amqp where
  "broker_connection_close_fails =
     broker_ok\<lparr>returns_error :=
       (\<lambda>cs. case last cs of
                Connection_Close h \<Rightarrow> Some (AmqpError ''connection close failed'')
              | _ \<Rightarrow> None)\<rparr>"

definition broker_declare_fails :: amqp where
  "broker_declare_fails =
     broker_ok\<lparr>returns_error :=
       (\<lambda>cs. case last cs of
                QueueDeclare h n d a e w t \<Rightarrow> Some (AmqpError ''declare failed'')
              | _ \<Rightarrow> None)\<rparr>"

definition broker_cancel_fails :: amqp where
  "broker_cancel_fails =
     broker_ok\<lparr>returns_error :=
       (\<lambda>cs. case last cs of
                Cancel h n w \<Rightarrow> Some (AmqpError ''cancel failed'')
              | _ \<Rightarrow> None)\<rparr>"

definition caller_options :: ExchangeOptions where
  "caller_options =
     \<lparr>opt_Name = ''events'', opt_Type = ''direct'', opt_Durable = False,
      opt_AutoDelete = True, OnDisconnect = None\<rparr>"

definition world0 :: world where
  "world0 =
     \<lparr>calls = [],
      options_at = (\<lambda>a. if a = DefaultExchangeOptions then DefaultExchangeOptions_init
                         else caller_options)\<rparr>"

definition hutch :: Exchange where
  "hutch =
     \<lparr>Name = ''hutch'', connection = Some 1, channel = Some 2,
      onDisconnect = Some (UserFunc 0)\<rparr>"

definition test_queue :: Queue where
  "test_queue =
     \<lparr>exchange = hutch, routingKey = ''amqptest.messages'', name = ''amqptest.queue''\<rparr>"

definition prefetch_options :: QueueOptions where
  "prefetch_options =
     \<lparr>Durable = True, AutoDelete = True, RoutingKey = ''amqptest.messages'',
      PrefetchCount = 10, PrefetchSize = 0\<rparr>"

definition delivery_0 :: Delivery where
  "delivery_0 =
     \<lparr>d_Acknowledger = Some 2, d_DeliveryTag = 1,
      d_Headers = [''request_id'' \<mapsto> FString ''a''], d_Body = bytes_of_string ''0''\<rparr>"

definition delivery_1 :: Delivery where
  "delivery_1 =
     \<lparr>d_Acknowledger = Some 2, d_DeliveryTag = 2,
      d_Headers = [''request_id'' \<mapsto> FString ''b''], d_Body = bytes_of_string ''1''\<rparr>"

definition consumer_0 :: goroutine where
  "consumer_0 = \<lparr>g_queue = test_queue, g_dd = 3, g_messages = Some 4\<rparr>"

definition message_0 :: Message where
  "message_0 =
     \<lparr>msg_Acknowledger = Wrapper \<lparr>ack_Acknowledger = Some 2, deliveryTag = 1\<rparr>,
      msg_Headers = [''request_id'' \<mapsto> FString ''a''], msg_Body = bytes_of_string ''0''\<rparr>"

definition message_1 :: Message where
  "message_1 =
     \<lparr>msg_Acknowledger = Wrapper \<lparr>ack_Acknowledger = Some 2, deliveryTag = 2\<rparr>,
      msg_Headers = [''request_id'' \<mapsto> FString ''b''], msg_Body = bytes_of_string ''1''\<rparr>"

definition reader_takes_all :: runtime where
  "reader_takes_all =
     \<lparr>send_outcome = (\<lambda>tr. SendCompletes), func_outcome = (\<lambda>k tr. Returns)\<rparr>"

section \<open>Library calls\<close>

lemma lib_call_eq:
  "lib_call env c w = (returns_error env (calls w @ [c]), w\<lparr>calls := calls w @ [c]\<rparr>)"
  by (simp add: lib_call_def record_call_def Let_def)

lemma unat_byte_of_char: "unat (of_nat (of_char c) :: 8 word) = of_char c"
proof -
  have "(of_char c :: nat) < 256" by (rule nat_of_char_less_256)
  then show ?thesis by (simp add: unat_of_nat)
qed

lemma bytes_of_string_unat: "map unat (bytes_of_string s) = map of_char s"
  by (simp add: bytes_of_string_def unat_byte_of_char)

section \<open>Exchange: properties\<close>

text \<open>
  Claim C5. \<open>Exchange.Close\<close> calls the channel's Close first. If that returns an error,
  Close returns this error and has made no other call: the connection's Close is not
  attempted. If it returns nil, the connection's Close is the second and last call, and
  Close returns what that call returns.
\<close>

theorem exchange_close_channel_then_connection:
  "(returns_error env (calls w @ [Channel_Close (channel e)]) = Some err \<longrightarrow>
      Exchange_Close env e w
        = (Some err, w\<lparr>calls := calls w @ [Channel_Close (channel e)]\<rparr>))
   \<and> (returns_error env (calls w @ [Channel_Close (channel e)]) = None \<longrightarrow>
      Exchange_Close env e w
        = (returns_error env
             (calls w @ [Channel_Close (channel e), Connection_Close (connection e)]),
           w\<lparr>calls := calls w @ [Channel_Close (channel e), Connection_Close (connection e)]\<rparr>))"
  by (simp add: Exchange_Close_def lib_call_eq)

theorem exchange_close_channel_then_connection_witness:
  "Exchange_Close broker_channel_close_fails hutch world0
     = (Some (AmqpError ''channel close failed''), world0\<lparr>calls := [Channel_Close (Some 2)]\<rparr>)
   \<and> Exchange_Close broker_connection_close_fails hutch world0
     = (Some (AmqpError ''connection close failed''),
        world0\<lparr>calls := [Channel_Close (Some 2), Connection_Close (Some 1)]\<rparr>)
   \<and> Exchange_Close broker_ok hutch world0
     = (None, world0\<lparr>calls := [Channel_Close (Some 2), Connection_Close (Some 1)]\<rparr>)"
  using exchange_close_channel_then_connection
          [of broker_channel_close_fails world0 hutch "AmqpError ''channel close failed''"]
        exchange_close_channel_then_connection
          [of broker_connection_close_fails world0 hutch "AmqpError ''x''"]
        exchange_close_channel_then_connection
          [of broker_ok world0 hutch "AmqpError ''x''"]
  by (simp add: broker_channel_close_fails_def broker_connection_close_fails_def
        broker_ok_def hutch_def world0_def)

text \<open>
  Claim C7. With a nil channel, \<open>Publish\<close> and \<open>PublishTransient\<close> return the error
  "channel is nil" and make no call. Otherwise each makes exactly one call, the
  channel's Publish on the Exchange's name and the routing key (not mandatory, not
  immediate), and returns what it returns. The message published has content type
  "application/json", the one header "request_id" holding the request id, priority 0
  and the bytes of the message string as body; \<open>Publish\<close> gives it the persistent
  delivery mode, and \<open>PublishTransient\<close> publishes the same message with the transient
  delivery mode instead.
\<close>

theorem publish_message_shape:
  "(channel e = None \<longrightarrow>
      Publish env e key message requestID w = (Some (ErrorsNew ''channel is nil''), w)
      \<and> PublishTransient env e key message requestID w
          = (Some (ErrorsNew ''channel is nil''), w))
   \<and> (channel e \<noteq> None \<longrightarrow>
      (let msg = (\<lambda>mode. \<lparr>pub_Headers = [''request_id'' \<mapsto> FString requestID],
                          pub_ContentType = ''application/json'',
                          pub_Body = bytes_of_string message,
                          pub_DeliveryMode = mode,
                          pub_Priority = 0\<rparr>);
           publishing = (\<lambda>mode. calls w
                           @ [Channel_Publish (channel e) (Name e) key False False (msg mode)])
       in Publish env e key message requestID w
            = (returns_error env (publishing amqp_Persistent),
               w\<lparr>calls := publishing amqp_Persistent\<rparr>)
        \<and> PublishTransient env e key message requestID w
            = (returns_error env (publishing amqp_Transient),
               w\<lparr>calls := publishing amqp_Transient\<rparr>)
        \<and> dom (pub_Headers (msg amqp_Persistent)) = {''request_id''}
        \<and> msg amqp_Transient = (msg amqp_Persistent)\<lparr>pub_DeliveryMode := amqp_Transient\<rparr>))
   \<and> map unat (bytes_of_string message) = map of_char message
   \<and> amqp_Persistent \<noteq> amqp_Transient"
  by (simp add: Publish_def PublishTransient_def Exchange_publish_def lib_call_eq Let_def
        bytes_of_string_unat amqp_Persistent_def amqp_Transient_def)

theorem publish_message_shape_witness:
  "Publish broker_ok (hutch\<lparr>channel := None\<rparr>) ''k'' ''0'' ''id'' world0
     = (Some (ErrorsNew ''channel is nil''), world0)
   \<and> PublishTransient broker_ok (hutch\<lparr>channel := None\<rparr>) ''k'' ''0'' ''id'' world0
     = (Some (ErrorsNew ''channel is nil''), world0)
   \<and> Publish broker_ok hutch ''k'' ''0'' ''id'' world0
     = (None,
        world0\<lparr>calls :=
          [Channel_Publish (Some 2) ''hutch'' ''k'' False False
             \<lparr>pub_Headers = [''request_id'' \<mapsto> FString ''id''],
              pub_ContentType = ''application/json'',
              pub_Body = [48], pub_DeliveryMode = 2, pub_Priority = 0\<rparr>]\<rparr>)
   \<and> PublishTransient broker_ok hutch ''k'' ''0'' ''id'' world0
     = (None,
        world0\<lparr>calls :=
          [Channel_Publish (Some 2) ''hutch'' ''k'' False False
             \<lparr>pub_Headers = [''request_id'' \<mapsto> FString ''id''],
              pub_ContentType = ''application/json'',
              pub_Body = [48], pub_DeliveryMode = 1, pub_Priority = 0\<rparr>]\<rparr>)"
  using publish_message_shape [of "hutch\<lparr>channel := None\<rparr>" broker_ok "''k''" "''0''" "''id''" world0]
        publish_message_shape [of hutch broker_ok "''k''" "''0''" "''id''" world0]
  by (simp add: broker_ok_def hutch_def world0_def Let_def bytes_of_string_def
        amqp_Persistent_def amqp_Transient_def)

text \<open>
  Claim C10. When \<open>NewExchange\<close> is given a non-nil options pointer whose struct has a nil
  \<open>OnDisconnect\<close>, and dialing and opening the channel succeed, the store of options
  structs afterwards differs from the one before in exactly one place: the caller's
  struct has \<open>DefaultOnDisconnect\<close> in its \<open>OnDisconnect\<close> field. Its other fields, and
  every other struct, are as before. This holds whether or not the exchange declaration
  that follows succeeds.
\<close>

theorem new_exchange_writes_default_callback:
  assumes "OnDisconnect (options_at w p) = None"
    and "returns_connection env (calls w @ [Dial (if url = [] then DefaultURL else url)]) = Inr c"
    and "returns_channel env
           (calls w @ [Dial (if url = [] then DefaultURL else url), Connection_Channel c])
         = Inr ch"
  shows "options_at (snd (NewExchange env url (Some p) w))
           = (options_at w)(p := (options_at w p)\<lparr>OnDisconnect := Some DefaultOnDisconnect\<rparr>)"
  using assms
  by (auto simp: NewExchange_def lib_call_eq Let_def record_call_def
        split: option.splits sum.splits)

theorem new_exchange_writes_default_callback_witness:
  "OnDisconnect (options_at world0 5) = None
   \<and> returns_connection broker_ok (calls world0 @ [Dial ''amqp://localhost'']) = Inr 1
   \<and> returns_channel broker_ok
        (calls world0 @ [Dial ''amqp://localhost'', Connection_Channel 1]) = Inr 2
   \<and> options_at (snd (NewExchange broker_ok [] (Some 5) world0)) 5
       = \<lparr>opt_Name = ''events'', opt_Type = ''direct'', opt_Durable = False,
          opt_AutoDelete = True, OnDisconnect = Some DefaultOnDisconnect\<rparr>
   \<and> options_at (snd (NewExchange broker_ok [] (Some 5) world0)) DefaultExchangeOptions
       = DefaultExchangeOptions_init
   \<and> fst (NewExchange broker_ok [] (Some 5) world0)
       = Inr \<lparr>Name = ''events'', connection = Some 1, channel = Some 2,
              onDisconnect = Some DefaultOnDisconnect\<rparr>"
proof -
  have h1: "OnDisconnect (options_at world0 5) = None"
    by (simp add: world0_def caller_options_def DefaultExchangeOptions_def)
  have h2: "returns_connection broker_ok
              (calls world0 @ [Dial (if [] = [] then DefaultURL else [])]) = Inr 1"
    by (simp add: broker_ok_def)
  have h3: "returns_channel broker_ok
              (calls world0 @ [Dial (if [] = [] then DefaultURL else []), Connection_Channel 1])
            = Inr 2"
    by (simp add: broker_ok_def)
  have result: "fst (NewExchange broker_ok [] (Some 5) world0)
       = Inr \<lparr>Name = ''events'', connection = Some 1, channel = Some 2,
              onDisconnect = Some DefaultOnDisconnect\<rparr>"
    by (simp add: NewExchange_def lib_call_eq Let_def record_call_def broker_ok_def world0_def
          caller_options_def DefaultExchangeOptions_def DefaultURL_def)
  show ?thesis
    using h1 h2 h3 result new_exchange_writes_default_callback [OF h1 h2 h3]
    by (simp add: world0_def caller_options_def DefaultExchangeOptions_def DefaultURL_def
          broker_ok_def)
qed

section \<open>Queue: properties\<close>

text \<open>
  Claim C8. \<open>NewQueue\<close> first declares the queue, with the options' durable and
  auto-delete flags, not exclusive and not no-wait. If the declaration fails it returns
  no queue and that error, having made no other call. After a successful declaration
  it sets the channel's QoS, with the options' prefetch count and size (not global),
  exactly when one of the two is positive; if that call fails it returns no queue and
  that error, and otherwise the queue, which carries the options' routing key. With nil
  options the flags are durable and not auto-delete and the routing key is empty.
\<close>

theorem new_queue_declare_and_qos:
  "(let options = (case options0 of None \<Rightarrow> DefaultQueueOptions | Some opts \<Rightarrow> opts);
        declaring = QueueDeclare (channel exch) queueName (Durable options) (AutoDelete options)
                    False False None;
        limiting = Qos (channel exch) (PrefetchCount options) (PrefetchSize options) False;
        q = \<lparr>exchange = exch, routingKey = RoutingKey options, name = queueName\<rparr>;
        result = NewQueue env queueName exch options0 w
    in (returns_error env (calls w @ [declaring]) = Some err \<longrightarrow>
          result = (Inl err, w\<lparr>calls := calls w @ [declaring]\<rparr>))
     \<and> (returns_error env (calls w @ [declaring]) = None \<longrightarrow>
          calls (snd result)
            = calls w @ declaring
                # (if PrefetchCount options > 0 \<or> PrefetchSize options > 0 then [limiting] else [])
          \<and> options_at (snd result) = options_at w
          \<and> fst result
            = (if PrefetchCount options > 0 \<or> PrefetchSize options > 0
               then (case returns_error env (calls w @ [declaring, limiting]) of
                       Some err' \<Rightarrow> Inl err' | None \<Rightarrow> Inr q)
               else Inr q))
     \<and> (options0 = None \<longrightarrow>
          Durable options = True \<and> AutoDelete options = False \<and> RoutingKey options = []
          \<and> declaring = QueueDeclare (channel exch) queueName True False False False None))"
  by (cases options0)
     (auto simp: NewQueue_def lib_call_eq Let_def DefaultQueueOptions_def split: option.splits)

theorem new_queue_declare_and_qos_witness:
  "NewQueue broker_ok ''amqptest.queue'' hutch (Some prefetch_options) world0
     = (Inr test_queue,
        world0\<lparr>calls := [QueueDeclare (Some 2) ''amqptest.queue'' True True False False None,
                         Qos (Some 2) 10 0 False]\<rparr>)
   \<and> NewQueue broker_ok ''amqptest.queue'' hutch None world0
     = (Inr (test_queue\<lparr>routingKey := []\<rparr>),
        world0\<lparr>calls := [QueueDeclare (Some 2) ''amqptest.queue'' True False False False None]\<rparr>)
   \<and> NewQueue broker_declare_fails ''amqptest.queue'' hutch (Some prefetch_options) world0
     = (Inl (AmqpError ''declare failed''),
        world0\<lparr>calls := [QueueDeclare (Some 2) ''amqptest.queue'' True True False False None]\<rparr>)"
proof -
  show ?thesis
    using new_queue_declare_and_qos
            [where env = broker_ok and queueName = "''amqptest.queue''" and exch = hutch
               and ?options0.0 = "Some prefetch_options" and w = world0
               and err = "AmqpError ''x''"]
          new_queue_declare_and_qos
            [where env = broker_ok and queueName = "''amqptest.queue''" and exch = hutch
               and ?options0.0 = None and w = world0 and err = "AmqpError ''x''"]
          new_queue_declare_and_qos
            [where env = broker_declare_fails and queueName = "''amqptest.queue''"
               and exch = hutch and ?options0.0 = "Some prefetch_options" and w = world0
               and err = "AmqpError ''declare failed''"]
    by (simp add: broker_ok_def broker_declare_fails_def hutch_def world0_def test_queue_def
          prefetch_options_def DefaultQueueOptions_def Let_def prod_eq_iff)
qed

text \<open>
  Claim C2. \<open>Queue.Close\<close> first cancels the consumer named after the queue, with no-wait
  false. If the cancellation fails it returns that error and has made no other call.
  Otherwise it registers for the channel's close notification, closes the Exchange
  (channel, and then connection if the channel closed without error), and last receives
  on the notification channel: it returns when that receive does, with the error
  received if that is not nil and with nil otherwise.
\<close>

theorem queue_close_sequence:
  "(let ch = channel (exchange q);
        cancel = Cancel ch (name q) False;
        closing = (case returns_error env (calls w @ [cancel, NotifyClose ch, Channel_Close ch]) of
                     Some err' \<Rightarrow> [Channel_Close ch]
                   | None \<Rightarrow> [Channel_Close ch, Connection_Close (connection (exchange q))]);
        w2 = w\<lparr>calls := calls w @ [cancel, NotifyClose ch]\<rparr>;
        final = calls w @ [cancel, NotifyClose ch] @ closing @ [Receive_NotifyClose]
    in (returns_error env (calls w @ [cancel]) = Some err \<longrightarrow>
          Queue_Close env q w = (Returned (Some err), w\<lparr>calls := calls w @ [cancel]\<rparr>))
     \<and> (returns_error env (calls w @ [cancel]) = None \<longrightarrow>
          calls (snd (Exchange_Close env (exchange q) w2)) = calls w2 @ closing
          \<and> Queue_Close env q w = (receives_close env final, w\<lparr>calls := final\<rparr>)))"
  by (auto simp: Queue_Close_def Exchange_Close_def consumerName_def lib_call_eq Let_def
        record_call_def split: option.splits blocking.splits)

theorem queue_close_sequence_witness:
  "Queue_Close broker_cancel_fails test_queue world0
     = (Returned (Some (AmqpError ''cancel failed'')),
        world0\<lparr>calls := [Cancel (Some 2) ''amqptest.queue'' False]\<rparr>)
   \<and> Queue_Close (broker_ok\<lparr>receives_close := (\<lambda>cs. Returned (Some (AmqpError ''closed'')))\<rparr>)
       test_queue world0
     = (Returned (Some (AmqpError ''closed'')),
        world0\<lparr>calls := [Cancel (Some 2) ''amqptest.queue'' False, NotifyClose (Some 2),
                         Channel_Close (Some 2), Connection_Close (Some 1),
                         Receive_NotifyClose]\<rparr>)
   \<and> Queue_Close broker_ok test_queue world0
     = (Returned None,
        world0\<lparr>calls := [Cancel (Some 2) ''amqptest.queue'' False, NotifyClose (Some 2),
                         Channel_Close (Some 2), Connection_Close (Some 1),
                         Receive_NotifyClose]\<rparr>)"
  using queue_close_sequence
          [where env = broker_cancel_fails and q = test_queue and w = world0
             and err = "AmqpError ''cancel failed''"]
        queue_close_sequence
          [where env = "broker_ok\<lparr>receives_close := (\<lambda>cs. Returned (Some (AmqpError ''closed'')))\<rparr>"
             and q = test_queue and w = world0 and err = "AmqpError ''x''"]
        queue_close_sequence
          [where env = broker_ok and q = test_queue and w = world0 and err = "AmqpError ''x''"]
  by (simp add: broker_ok_def broker_cancel_fails_def test_queue_def hutch_def world0_def Let_def)

text \<open>
  Claim C9. \<open>Queue.Close\<close> runs \<open>Exchange.Close\<close> and drops what it returns. Take a run in
  which the cancellation succeeds, and let \<open>Exchange.Close\<close>, run on the log that the
  cancellation and the registration for the close notification leave, return \<open>r\<close> and the
  world \<open>w3\<close>. Then \<open>Queue.Close\<close> ends in \<open>w3\<close> extended by the receive on the
  notification channel, so the Exchange's close calls are in its log, and it returns what
  that receive yields, whatever \<open>r\<close> is. When \<open>r\<close> is an error, it is the error of the
  channel's Close, which was then the only close call, or the channel's Close returned
  nil and it is the error of the connection's Close; when the receive yields nil,
  \<open>Queue.Close\<close> returns nil all the same, and the error \<open>r\<close> is lost.
\<close>

theorem queue_close_discards_exchange_close_error:
  assumes "returns_error env (calls w @ [Cancel (channel (exchange q)) (name q) False]) = None"
    and "Exchange_Close env (exchange q)
           (w\<lparr>calls := calls w @ [Cancel (channel (exchange q)) (name q) False,
                                    NotifyClose (channel (exchange q))]\<rparr>)
         = (r, w3)"
  shows "(let ch = channel (exchange q);
              before = calls w @ [Cancel ch (name q) False, NotifyClose ch]
          in Queue_Close env q w
               = (receives_close env (calls w3 @ [Receive_NotifyClose]),
                  w3\<lparr>calls := calls w3 @ [Receive_NotifyClose]\<rparr>)
           \<and> (receives_close env (calls w3 @ [Receive_NotifyClose]) = Returned None \<longrightarrow>
                Queue_Close env q w
                  = (Returned None, w3\<lparr>calls := calls w3 @ [Receive_NotifyClose]\<rparr>))
           \<and> (\<forall>err. r = Some err \<longrightarrow>
                returns_error env (before @ [Channel_Close ch]) = Some err
                  \<and> calls w3 = before @ [Channel_Close ch]
                \<or> returns_error env (before @ [Channel_Close ch]) = None
                  \<and> returns_error env
                       (before @ [Channel_Close ch, Connection_Close (connection (exchange q))])
                     = Some err
                  \<and> calls w3
                     = before @ [Channel_Close ch, Connection_Close (connection (exchange q))]))"
proof -
  let ?ch = "channel (exchange q)"
  let ?before = "calls w @ [Cancel ?ch (name q) False, NotifyClose ?ch]"
  let ?w2 = "w\<lparr>calls := ?before\<rparr>"
  have w3: "w3 = snd (Exchange_Close env (exchange q) ?w2)"
    using assms(2) by simp
  have run: "Queue_Close env q w
               = (receives_close env (calls w3 @ [Receive_NotifyClose]),
                  w3\<lparr>calls := calls w3 @ [Receive_NotifyClose]\<rparr>)"
    using assms(1) unfolding w3
    by (simp add: Queue_Close_def consumerName_def lib_call_eq Let_def record_call_def
          split: option.splits blocking.splits)
  have failed: "\<forall>err. r = Some err \<longrightarrow>
                returns_error env (?before @ [Channel_Close ?ch]) = Some err
                  \<and> calls w3 = ?before @ [Channel_Close ?ch]
                \<or> returns_error env (?before @ [Channel_Close ?ch]) = None
                  \<and> returns_error env
                       (?before @ [Channel_Close ?ch, Connection_Close (connection (exchange q))])
                     = Some err
                  \<and> calls w3
                     = ?before @ [Channel_Close ?ch, Connection_Close (connection (exchange q))]"
    using assms(2)
    by (auto simp: Exchange_Close_def lib_call_eq split: option.splits)
  show ?thesis
    unfolding Let_def using run failed by simp
qed

theorem queue_close_discards_exchange_close_error_witness:
  "Exchange_Close broker_channel_close_fails hutch
     (world0\<lparr>calls := [Cancel (Some 2) ''amqptest.queue'' False, NotifyClose (Some 2)]\<rparr>)
     = (Some (AmqpError ''channel close failed''),
        world0\<lparr>calls := [Cancel (Some 2) ''amqptest.queue'' False, NotifyClose (Some 2),
                         Channel_Close (Some 2)]\<rparr>)
   \<and> Queue_Close broker_channel_close_fails test_queue world0
     = (Returned None,
        world0\<lparr>calls := [Cancel (Some 2) ''amqptest.queue'' False, NotifyClose (Some 2),
                         Channel_Close (Some 2), Receive_NotifyClose]\<rparr>)
   \<and> Exchange_Close broker_connection_close_fails hutch
       (world0\<lparr>calls := [Cancel (Some 2) ''amqptest.queue'' False, NotifyClose (Some 2)]\<rparr>)
     = (Some (AmqpError ''connection close failed''),
        world0\<lparr>calls := [Cancel (Some 2) ''amqptest.queue'' False, NotifyClose (Some 2),
                         Channel_Close (Some 2), Connection_Close (Some 1)]\<rparr>)
   \<and> Queue_Close broker_connection_close_fails test_queue world0
     = (Returned None,
        world0\<lparr>calls := [Cancel (Some 2) ''amqptest.queue'' False, NotifyClose (Some 2),
                         Channel_Close (Some 2), Connection_Close (Some 1),
                         Receive_NotifyClose]\<rparr>)"
proof -
  have a1: "returns_error broker_channel_close_fails
              (calls world0 @ [Cancel (channel (exchange test_queue)) (name test_queue) False])
            = None"
    by (simp add: broker_channel_close_fails_def broker_ok_def)
  have a2: "Exchange_Close broker_channel_close_fails (exchange test_queue)
              (world0\<lparr>calls := calls world0
                 @ [Cancel (channel (exchange test_queue)) (name test_queue) False,
                    NotifyClose (channel (exchange test_queue))]\<rparr>)
            = (Some (AmqpError ''channel close failed''),
               world0\<lparr>calls := [Cancel (Some 2) ''amqptest.queue'' False, NotifyClose (Some 2),
                                Channel_Close (Some 2)]\<rparr>)"
    by (simp add: Exchange_Close_def lib_call_eq broker_channel_close_fails_def broker_ok_def
          test_queue_def hutch_def world0_def)
  have b1: "returns_error broker_connection_close_fails
              (calls world0 @ [Cancel (channel (exchange test_queue)) (name test_queue) False])
            = None"
    by (simp add: broker_connection_close_fails_def broker_ok_def)
  have b2: "Exchange_Close broker_connection_close_fails (exchange test_queue)
              (world0\<lparr>calls := calls world0
                 @ [Cancel (channel (exchange test_queue)) (name test_queue) False,
                    NotifyClose (channel (exchange test_queue))]\<rparr>)
            = (Some (AmqpError ''connection close failed''),
               world0\<lparr>calls := [Cancel (Some 2) ''amqptest.queue'' False, NotifyClose (Some 2),
                                Channel_Close (Some 2), Connection_Close (Some 1)]\<rparr>)"
    by (simp add: Exchange_Close_def lib_call_eq broker_connection_close_fails_def broker_ok_def
          test_queue_def hutch_def world0_def)
  show ?thesis
    using a2 b2
          queue_close_discards_exchange_close_error [OF a1 a2]
          queue_close_discards_exchange_close_error [OF b1 b2]
    by (simp add: Let_def broker_channel_close_fails_def broker_connection_close_fails_def
          broker_ok_def test_queue_def hutch_def world0_def)
qed

section \<open>The consume loop: properties\<close>

lemma forward_steps_append:
  "forward_steps g (xs @ ys) = forward_steps g xs @ forward_steps g ys"
  by (induction xs) simp_all

lemma received_append: "received (xs @ ys) = received xs @ received ys"
  by (induction xs rule: received.induct) simp_all

lemma sent_append: "sent (xs @ ys) = sent xs @ sent ys"
  by (induction xs rule: sent.induct) simp_all

lemma received_forward_steps: "received (forward_steps g ds) = ds"
  by (induction ds) simp_all

lemma sent_forward_steps:
  "sent (forward_steps g ds)
     = map (\<lambda>d. (g_messages g,
                  \<lparr>msg_Acknowledger =
                     Wrapper \<lparr>ack_Acknowledger = d_Acknowledger d, deliveryTag = d_DeliveryTag d\<rparr>,
                   msg_Headers = d_Headers d,
                   msg_Body = d_Body d\<rparr>)) ds"
  by (induction ds) simp_all

lemma forward_steps_no_disconnect:
  "Receive None \<notin> set (forward_steps g ds)
   \<and> Call_onDisconnect f \<notin> set (forward_steps g ds)
   \<and> Close_chan c \<notin> set (forward_steps g ds)"
  by (induction ds) simp_all

text \<open>
  Every run of the loop performs the forwarding steps for some first deliveries and then
  either nothing more (it is blocked, or a send panicked) or the not-ok receive and the
  call of the callback.
\<close>

lemma consume_loop_shape:
  "\<exists>k tail. k \<le> length ds
     \<and> snd (consume_loop rt g ds closed tr) = tr @ forward_steps g (take k ds) @ tail
     \<and> (tail = [] \<and> fst (consume_loop rt g ds closed tr) \<in> {BlockedOnReceive, BlockedOnSend, Panicked ''send on closed channel''}
          \<and> (fst (consume_loop rt g ds closed tr) = BlockedOnReceive \<longrightarrow> \<not> closed \<and> k = length ds)
        \<or> tail = [Receive None, Call_onDisconnect (onDisconnect (exchange (g_queue g)))]
          \<and> closed \<and> k = length ds
          \<and> fst (consume_loop rt g ds closed tr)
              = (case call_func rt (onDisconnect (exchange (g_queue g)))
                        (snd (consume_loop rt g ds closed tr)) of
                   Returns \<Rightarrow> Finished | Panics msg \<Rightarrow> Panicked msg))"
proof (induction ds arbitrary: tr)
  case Nil
  show ?case
    by (cases closed) (auto simp: Let_def split: call_outcome.splits)
next
  case (Cons d ds)
  let ?m = "\<lparr>msg_Acknowledger =
                 Wrapper \<lparr>ack_Acknowledger = d_Acknowledger d, deliveryTag = d_DeliveryTag d\<rparr>,
               msg_Headers = d_Headers d, msg_Body = d_Body d\<rparr>"
  let ?tr2 = "tr @ [Receive (Some d), Send (g_messages g) ?m]"
  show ?case
  proof (cases "send_outcome rt ?tr2")
    case SendCompletes
    then have eq: "consume_loop rt g (d # ds) closed tr = consume_loop rt g ds closed ?tr2"
      by (simp add: Let_def)
    from Cons.IH [of ?tr2] obtain k tail where
      k: "k \<le> length ds"
      and s: "snd (consume_loop rt g ds closed ?tr2) = ?tr2 @ forward_steps g (take k ds) @ tail"
      and t: "(tail = [] \<and> fst (consume_loop rt g ds closed ?tr2) \<in> {BlockedOnReceive, BlockedOnSend, Panicked ''send on closed channel''}
          \<and> (fst (consume_loop rt g ds closed ?tr2) = BlockedOnReceive \<longrightarrow> \<not> closed \<and> k = length ds)
        \<or> tail = [Receive None, Call_onDisconnect (onDisconnect (exchange (g_queue g)))]
          \<and> closed \<and> k = length ds
          \<and> fst (consume_loop rt g ds closed ?tr2)
              = (case call_func rt (onDisconnect (exchange (g_queue g)))
                        (snd (consume_loop rt g ds closed ?tr2)) of
                   Returns \<Rightarrow> Finished | Panics msg \<Rightarrow> Panicked msg))"
      by blast
    show ?thesis
      apply (rule exI [of _ "Suc k"], rule exI [of _ tail])
      using k s t unfolding eq by auto
  next
    case SendBlocks
    then have eq: "consume_loop rt g (d # ds) closed tr = (BlockedOnSend, ?tr2)"
      by (simp add: Let_def)
    show ?thesis
      unfolding eq by (rule exI [of _ "Suc 0"], rule exI [of _ "[]"]) simp
  next
    case SendPanics
    then have eq: "consume_loop rt g (d # ds) closed tr = (Panicked ''send on closed channel'', ?tr2)"
      by (simp add: Let_def)
    show ?thesis
      unfolding eq by (rule exI [of _ "Suc 0"], rule exI [of _ "[]"]) simp
  qed
qed

lemma consume_loop_all_sent:
  "\<forall>tr'. send_outcome rt tr' = SendCompletes \<Longrightarrow>
   snd (consume_loop rt g ds closed tr)
     = tr @ forward_steps g ds
          @ (if closed then [Receive None, Call_onDisconnect (onDisconnect (exchange (g_queue g)))]
             else [])"
  by (induction ds arbitrary: tr) (auto simp: Let_def split: call_outcome.splits)


lemma consume_loop_fresh:
  "\<exists>k tail. k \<le> length ds
     \<and> snd (consume_loop rt g ds closed []) = forward_steps g (take k ds) @ tail
     \<and> (tail = []
        \<or> tail = [Receive None, Call_onDisconnect (onDisconnect (exchange (g_queue g)))]
          \<and> fst (consume_loop rt g ds closed [])
              = (case call_func rt (onDisconnect (exchange (g_queue g)))
                        (snd (consume_loop rt g ds closed [])) of
                   Returns \<Rightarrow> Finished | Panics msg \<Rightarrow> Panicked msg))"
  using consume_loop_shape [of ds rt g closed "[]"] by (simp only: append_Nil) blast

lemma received_tail:
  "tail = [] \<or> tail = [Receive None, Call_onDisconnect f] \<Longrightarrow> received tail = [] \<and> sent tail = []"
  by auto

text \<open>
  Claim C1. In a run of the consume loop, from its start: no step closes a channel.
  If a receive on the delivery channel reports not-ok, then the steps end with that
  receive followed by the call of the Exchange's \<open>onDisconnect\<close>, and neither a not-ok
  receive nor a call of the callback occurs before (the callback is called exactly
  once); nothing follows the call, and the goroutine ends there, finished when the
  callback returns and in the callback's panic when it panics: it is not left blocked.
  When the delivery channel is closed and every send completes, the loop does reach
  the receive that reports not-ok.
\<close>

theorem consume_loop_disconnect:
  "(let run = consume_loop rt g ds closed [];
        tr = snd run;
        f = onDisconnect (exchange (g_queue g))
    in (\<forall>c. Close_chan c \<notin> set tr)
     \<and> (Receive None \<in> set tr \<longrightarrow>
          (\<exists>pre. tr = pre @ [Receive None, Call_onDisconnect f]
                \<and> Receive None \<notin> set pre \<and> (\<forall>f'. Call_onDisconnect f' \<notin> set pre))
          \<and> fst run = (case call_func rt f tr of
                         Returns \<Rightarrow> Finished | Panics msg \<Rightarrow> Panicked msg)
          \<and> fst run \<noteq> BlockedOnReceive \<and> fst run \<noteq> BlockedOnSend)
     \<and> (closed \<and> (\<forall>tr'. send_outcome rt tr' = SendCompletes) \<longrightarrow> Receive None \<in> set tr))"
proof -
  let ?run = "consume_loop rt g ds closed []"
  let ?f = "onDisconnect (exchange (g_queue g))"
  from consume_loop_fresh [of ds rt g closed] obtain k tail where
    s: "snd ?run = forward_steps g (take k ds) @ tail"
    and t: "tail = [] \<or> tail = [Receive None, Call_onDisconnect ?f]
              \<and> fst ?run = (case call_func rt ?f (snd ?run) of
                              Returns \<Rightarrow> Finished | Panics msg \<Rightarrow> Panicked msg)"
    by blast
  have no_close: "\<forall>c. Close_chan c \<notin> set (snd ?run)"
    using s t forward_steps_no_disconnect [of g "take k ds"] by auto
  have disc: "Receive None \<in> set (snd ?run) \<longrightarrow>
          (\<exists>pre. snd ?run = pre @ [Receive None, Call_onDisconnect ?f]
                \<and> Receive None \<notin> set pre \<and> (\<forall>f'. Call_onDisconnect f' \<notin> set pre))
          \<and> fst ?run = (case call_func rt ?f (snd ?run) of
                         Returns \<Rightarrow> Finished | Panics msg \<Rightarrow> Panicked msg)
          \<and> fst ?run \<noteq> BlockedOnReceive \<and> fst ?run \<noteq> BlockedOnSend"
  proof
    assume r: "Receive None \<in> set (snd ?run)"
    with s forward_steps_no_disconnect [of g "take k ds"] have "tail \<noteq> []" by auto
    with t have tl: "tail = [Receive None, Call_onDisconnect ?f]"
      and fin: "fst ?run = (case call_func rt ?f (snd ?run) of
                              Returns \<Rightarrow> Finished | Panics msg \<Rightarrow> Panicked msg)"
      by auto
    have "snd ?run = forward_steps g (take k ds) @ [Receive None, Call_onDisconnect ?f]
            \<and> Receive None \<notin> set (forward_steps g (take k ds))
            \<and> (\<forall>f'. Call_onDisconnect f' \<notin> set (forward_steps g (take k ds)))"
      using s tl forward_steps_no_disconnect [of g "take k ds"] by simp
    then have ex: "\<exists>pre. snd ?run = pre @ [Receive None, Call_onDisconnect ?f]
                \<and> Receive None \<notin> set pre \<and> (\<forall>f'. Call_onDisconnect f' \<notin> set pre)"
      by blast
    have "fst ?run \<noteq> BlockedOnReceive \<and> fst ?run \<noteq> BlockedOnSend"
      using fin by (simp split: call_outcome.splits)
    with ex fin show "(\<exists>pre. snd ?run = pre @ [Receive None, Call_onDisconnect ?f]
                \<and> Receive None \<notin> set pre \<and> (\<forall>f'. Call_onDisconnect f' \<notin> set pre))
          \<and> fst ?run = (case call_func rt ?f (snd ?run) of
                         Returns \<Rightarrow> Finished | Panics msg \<Rightarrow> Panicked msg)
          \<and> fst ?run \<noteq> BlockedOnReceive \<and> fst ?run \<noteq> BlockedOnSend"
      by simp
  qed
  have reach: "closed \<and> (\<forall>tr'. send_outcome rt tr' = SendCompletes) \<longrightarrow> Receive None \<in> set (snd ?run)"
    by (simp add: consume_loop_all_sent)
  show ?thesis
    unfolding Let_def using no_close disc reach by blast
qed

theorem consume_loop_disconnect_witness:
  "consume_loop reader_takes_all consumer_0 [delivery_0, delivery_1] True []
     = (Finished,
        [Receive (Some delivery_0), Send (Some 4) message_0,
         Receive (Some delivery_1), Send (Some 4) message_1,
         Receive None, Call_onDisconnect (Some (UserFunc 0))])
   \<and> consume_loop reader_takes_all
        (consumer_0\<lparr>g_queue := test_queue\<lparr>exchange := hutch\<lparr>onDisconnect := Some DefaultOnDisconnect\<rparr>\<rparr>\<rparr>)
        [] True []
     = (Panicked ''Lost connection'',
        [Receive None, Call_onDisconnect (Some DefaultOnDisconnect)])"
  using consume_loop_disconnect [of reader_takes_all consumer_0 "[delivery_0, delivery_1]" True]
        consume_loop_disconnect
          [of reader_takes_all
              "consumer_0\<lparr>g_queue := test_queue\<lparr>exchange := hutch\<lparr>onDisconnect := Some DefaultOnDisconnect\<rparr>\<rparr>\<rparr>"
              "[]" True]
  by (simp add: Let_def reader_takes_all_def consumer_0_def test_queue_def hutch_def
        delivery_0_def delivery_1_def message_0_def message_1_def)

lemma subscribe_goroutine:
  "fst (snd (Subscribe env q messages w)) = Some g \<Longrightarrow> g_messages g = messages \<and> g_queue g = q"
  by (auto simp: Subscribe_def bind_def lib_call_eq Let_def split: option.splits sum.splits)

text \<open>
  Claim C6. \<open>Subscribe\<close> first binds the queue to the Exchange's name under the queue's
  routing key; if that fails it returns the error and does nothing else. Otherwise its
  second and last call starts consuming from the queue with the queue's name as consumer
  name and autoAck, exclusive, noLocal and noWait all false; on success it returns nil
  and has started the goroutine on the queue, the delivery channel and the output
  channel. In every run of that goroutine, the messages sent are, in order, one for
  each delivery received: sent on the output channel, with an acknowledger wrapping the
  delivery's acknowledger and tag, and with the delivery's headers and body. The
  deliveries received are the first ones of the delivery channel, in order, and all of
  them when every send completes.
\<close>

theorem subscribe_binds_consumes_and_forwards:
  "(let ch = channel (exchange q);
        binding = QueueBind ch (name q) (routingKey q) (Name (exchange q)) False None;
        consuming = Consume ch (name q) (name q) False False False False None;
        result = Subscribe env q messages w
    in (returns_error env (calls w @ [binding]) = Some err \<longrightarrow>
          result = (Some err, None, w\<lparr>calls := calls w @ [binding]\<rparr>))
     \<and> (returns_error env (calls w @ [binding]) = None \<longrightarrow>
          snd (snd result) = w\<lparr>calls := calls w @ [binding, consuming]\<rparr>
          \<and> (case returns_deliveries env (calls w @ [binding, consuming]) of
               Inl err' \<Rightarrow> fst result = Some err' \<and> fst (snd result) = None
             | Inr dd \<Rightarrow> fst result = None
                 \<and> fst (snd result) = Some \<lparr>g_queue = q, g_dd = dd, g_messages = messages\<rparr>))
     \<and> (\<forall>g rt ds closed. fst (snd result) = Some g \<longrightarrow>
          (let tr = snd (consume_loop rt g ds closed [])
           in sent tr
                = map (\<lambda>d. (messages,
                             \<lparr>msg_Acknowledger =
                                Wrapper \<lparr>ack_Acknowledger = d_Acknowledger d,
                                         deliveryTag = d_DeliveryTag d\<rparr>,
                              msg_Headers = d_Headers d,
                              msg_Body = d_Body d\<rparr>)) (received tr)
            \<and> received tr = take (length (received tr)) ds
            \<and> ((\<forall>tr'. send_outcome rt tr' = SendCompletes) \<longrightarrow> received tr = ds))))"
proof -
  have calls_part:
    "returns_error env (calls w @ [QueueBind (channel (exchange q)) (name q) (routingKey q) (Name (exchange q)) False None]) = Some err \<longrightarrow>
       Subscribe env q messages w = (Some err, None, w\<lparr>calls := calls w @ [QueueBind (channel (exchange q)) (name q) (routingKey q) (Name (exchange q)) False None]\<rparr>)"
    by (simp add: Subscribe_def bind_def lib_call_eq)
  have consume_part:
    "returns_error env (calls w @ [QueueBind (channel (exchange q)) (name q) (routingKey q) (Name (exchange q)) False None]) = None \<longrightarrow>
       snd (snd (Subscribe env q messages w)) = w\<lparr>calls := calls w @ [QueueBind (channel (exchange q)) (name q) (routingKey q) (Name (exchange q)) False None, Consume (channel (exchange q)) (name q) (name q) False False False False None]\<rparr>
       \<and> (case returns_deliveries env (calls w @ [QueueBind (channel (exchange q)) (name q) (routingKey q) (Name (exchange q)) False None, Consume (channel (exchange q)) (name q) (name q) False False False False None]) of
               Inl err' \<Rightarrow> fst (Subscribe env q messages w) = Some err' \<and> fst (snd (Subscribe env q messages w)) = None
             | Inr dd \<Rightarrow> fst (Subscribe env q messages w) = None
                 \<and> fst (snd (Subscribe env q messages w)) = Some \<lparr>g_queue = q, g_dd = dd, g_messages = messages\<rparr>)"
    by (simp add: Subscribe_def bind_def lib_call_eq consumerName_def record_call_def Let_def
          split: sum.splits)
  have loop_part: "sent (snd (consume_loop rt g ds closed []))
                = map (\<lambda>d. (messages,
                             \<lparr>msg_Acknowledger =
                                Wrapper \<lparr>ack_Acknowledger = d_Acknowledger d,
                                         deliveryTag = d_DeliveryTag d\<rparr>,
                              msg_Headers = d_Headers d,
                              msg_Body = d_Body d\<rparr>)) (received (snd (consume_loop rt g ds closed [])))
            \<and> received (snd (consume_loop rt g ds closed [])) = take (length (received (snd (consume_loop rt g ds closed [])))) ds
            \<and> ((\<forall>tr'. send_outcome rt tr' = SendCompletes) \<longrightarrow> received (snd (consume_loop rt g ds closed [])) = ds)"
    if g: "fst (snd (Subscribe env q messages w)) = Some g" for g rt ds closed
  proof -
    from subscribe_goroutine [OF g] have m: "g_messages g = messages" by simp
    from consume_loop_fresh [of ds rt g closed] obtain k tail where
      k: "k \<le> length ds"
      and s: "snd (consume_loop rt g ds closed []) = forward_steps g (take k ds) @ tail"
      and t: "tail = [] \<or> tail = [Receive None, Call_onDisconnect (onDisconnect (exchange (g_queue g)))]"
      by blast
    from received_tail [OF t] have rt: "received tail = []" and st: "sent tail = []" by simp_all
    have r: "received (snd (consume_loop rt g ds closed [])) = take k ds"
      by (simp add: s received_append received_forward_steps rt)
    have "sent (snd (consume_loop rt g ds closed []))
            = map (\<lambda>d. (messages,
                             \<lparr>msg_Acknowledger =
                                Wrapper \<lparr>ack_Acknowledger = d_Acknowledger d,
                                         deliveryTag = d_DeliveryTag d\<rparr>,
                              msg_Headers = d_Headers d,
                              msg_Body = d_Body d\<rparr>)) (take k ds)"
      by (simp add: s sent_append sent_forward_steps st m)
    moreover have "take k ds = take (length (take k ds)) ds"
      using k by (simp add: min_def)
    moreover have "(\<forall>tr'. send_outcome rt tr' = SendCompletes) \<longrightarrow> received (snd (consume_loop rt g ds closed [])) = ds"
      by (auto simp: consume_loop_all_sent received_append received_forward_steps)
    ultimately show ?thesis using r by simp
  qed
  show ?thesis
    unfolding Let_def using calls_part consume_part loop_part by blast
qed


theorem subscribe_binds_consumes_and_forwards_witness:
  "Subscribe broker_ok test_queue (Some 4) world0
     = (None, Some consumer_0,
        world0\<lparr>calls :=
          [QueueBind (Some 2) ''amqptest.queue'' ''amqptest.messages'' ''hutch'' False None,
           Consume (Some 2) ''amqptest.queue'' ''amqptest.queue'' False False False False None]\<rparr>)
   \<and> received (snd (consume_loop reader_takes_all consumer_0 [delivery_0, delivery_1] True []))
     = [delivery_0, delivery_1]
   \<and> sent (snd (consume_loop reader_takes_all consumer_0 [delivery_0, delivery_1] True []))
     = [(Some 4, message_0), (Some 4, message_1)]"
proof -
  have sub: "Subscribe broker_ok test_queue (Some 4) world0
     = (None, Some consumer_0,
        world0\<lparr>calls :=
          [QueueBind (Some 2) ''amqptest.queue'' ''amqptest.messages'' ''hutch'' False None,
           Consume (Some 2) ''amqptest.queue'' ''amqptest.queue'' False False False False None]\<rparr>)"
    by (simp add: Subscribe_def bind_def lib_call_eq consumerName_def record_call_def Let_def
          broker_ok_def test_queue_def hutch_def world0_def consumer_0_def)
  have all_sent: "\<forall>tr'. send_outcome reader_takes_all tr' = SendCompletes"
    by (simp add: reader_takes_all_def)
  from subscribe_binds_consumes_and_forwards
         [where env = broker_ok and q = test_queue and messages = "Some 4" and w = world0
            and err = "AmqpError ''x''", unfolded Let_def]
  have "\<forall>g rt ds closed. fst (snd (Subscribe broker_ok test_queue (Some 4) world0)) = Some g \<longrightarrow>
          sent (snd (consume_loop rt g ds closed []))
                = map (\<lambda>d. (Some 4,
                             \<lparr>msg_Acknowledger =
                                Wrapper \<lparr>ack_Acknowledger = d_Acknowledger d,
                                         deliveryTag = d_DeliveryTag d\<rparr>,
                              msg_Headers = d_Headers d,
                              msg_Body = d_Body d\<rparr>)) (received (snd (consume_loop rt g ds closed [])))
            \<and> ((\<forall>tr'. send_outcome rt tr' = SendCompletes) \<longrightarrow> received (snd (consume_loop rt g ds closed [])) = ds)"
    by blast
  from this [rule_format, of consumer_0 reader_takes_all "[delivery_0, delivery_1]" True] sub all_sent
  have "sent (snd (consume_loop reader_takes_all consumer_0 [delivery_0, delivery_1] True []))
                = map (\<lambda>d. (Some 4,
                             \<lparr>msg_Acknowledger =
                                Wrapper \<lparr>ack_Acknowledger = d_Acknowledger d,
                                         deliveryTag = d_DeliveryTag d\<rparr>,
                              msg_Headers = d_Headers d,
                              msg_Body = d_Body d\<rparr>)) [delivery_0, delivery_1]
        \<and> received (snd (consume_loop reader_takes_all consumer_0 [delivery_0, delivery_1] True [])) = [delivery_0, delivery_1]"
    by simp
  then show ?thesis
    using sub by (simp add: delivery_0_def delivery_1_def message_0_def message_1_def)
qed

section \<open>NullAcknowledger: properties\<close>

lemma null_call_success_acked:
  "null_call c a = (None, a') \<Longrightarrow> acked a'"
  by (cases c)
     (auto simp: NullAcknowledger_Ack_def NullAcknowledger_Nack_def split: if_splits)

lemma null_call_after_acked:
  "acked a \<Longrightarrow> null_call c a = (Some ErrAlreadyAcked, a)"
  by (cases c) (simp_all add: NullAcknowledger_Ack_def NullAcknowledger_Nack_def)

lemma null_calls_after_acked:
  "acked a \<Longrightarrow> null_calls cs a = (replicate (length cs) (Some ErrAlreadyAcked), a)"
  by (induction cs) (simp_all add: null_call_after_acked)

text \<open>
  Claim C3. Once one call (Ack, or Nack with either flag) on a NullAcknowledger has
  succeeded, every later call, whichever method and flag, returns the "already acked"
  error, and the recorded decision and the acked flag stay as that first call left
  them: this holds for the next call and for every further call of any later history.
\<close>

theorem null_acknowledger_terminal_once:
  assumes "null_call c0 a0 = (None, a1)"
  shows "null_call c a1 = (Some ErrAlreadyAcked, a1)
       \<and> null_calls cs a1 = (replicate (length cs) (Some ErrAlreadyAcked), a1)
       \<and> Acknowledgement (snd (null_calls cs a1)) = Acknowledgement a1
       \<and> acked (snd (null_calls cs a1)) = acked a1"
proof -
  from assms have "acked a1" by (rule null_call_success_acked)
  then show ?thesis
    by (simp add: null_call_after_acked null_calls_after_acked)
qed

theorem null_acknowledger_terminal_once_witness:
  "null_call CallAck NullAcknowledger_zero
     = (None, \<lparr>acked = True, Acknowledgement = Acked\<rparr>)
   \<and> null_call (CallNack True) \<lparr>acked = True, Acknowledgement = Acked\<rparr>
     = (Some ErrAlreadyAcked, \<lparr>acked = True, Acknowledgement = Acked\<rparr>)
   \<and> null_calls [CallNack False, CallAck] \<lparr>acked = True, Acknowledgement = Acked\<rparr>
     = ([Some ErrAlreadyAcked, Some ErrAlreadyAcked], \<lparr>acked = True, Acknowledgement = Acked\<rparr>)"
proof -
  have h: "null_call CallAck NullAcknowledger_zero
             = (None, \<lparr>acked = True, Acknowledgement = Acked\<rparr>)"
    by (simp add: NullAcknowledger_Ack_def NullAcknowledger_zero_def)
  show ?thesis
    using h null_acknowledger_terminal_once [OF h, of "CallNack True" "[CallNack False, CallAck]"]
    by simp
qed

text \<open>
  Claim C4. The zero-valued NullAcknowledger reports Unacknowledged; on it a first Ack
  returns nil and records Acked, a first Nack with requeue true returns nil and records
  Requeued, and a first Nack with requeue false returns nil and records Dropped. The
  four decisions are distinct values.
\<close>

theorem null_acknowledger_first_call:
  "Acknowledgement NullAcknowledger_zero = Unacknowledged
   \<and> fst (NullAcknowledger_Ack NullAcknowledger_zero) = None
   \<and> Acknowledgement (snd (NullAcknowledger_Ack NullAcknowledger_zero)) = Acked
   \<and> fst (NullAcknowledger_Nack NullAcknowledger_zero True) = None
   \<and> Acknowledgement (snd (NullAcknowledger_Nack NullAcknowledger_zero True)) = Requeued
   \<and> fst (NullAcknowledger_Nack NullAcknowledger_zero False) = None
   \<and> Acknowledgement (snd (NullAcknowledger_Nack NullAcknowledger_zero False)) = Dropped
   \<and> distinct [Unacknowledged, Acked, Requeued, Dropped]"
  by (simp add: NullAcknowledger_zero_def NullAcknowledger_Ack_def NullAcknowledger_Nack_def
        Unacknowledged_def Acked_def Requeued_def Dropped_def)

end
